theory Spec2Isabelle
  imports Complex_Main
begin

section \<open>Python values exchanged with the YAML library\<close>

text \<open>
  \<^verbatim>\<open>chisage-generate.py\<close> builds plain Python data (dicts, lists, strings, numbers),
  hands it to \<^verbatim>\<open>yaml.dump\<close> and reads it back with \<^verbatim>\<open>yaml.safe_load\<close>. The values are
  modelled by one datatype. A dict is an association list in insertion order (the order
  \<^verbatim>\<open>sort_keys=False\<close> keeps); the dicts built by the program have pairwise distinct keys.
  A Python float is modelled by a real number: the program only stores and copies floats.
  Strings are \<^typ>\<open>string\<close>; the text handled by the program is ASCII except for the
  unit of one register, which is written as its UTF-8 bytes.
\<close>

datatype yaml =
    YNull
  | YBool bool
  | YInt int
  | YFloat real
  | YStr string
  | YList "yaml list"
  | YDict "(yaml \<times> yaml) list"

section \<open>The hub registry: upsert by name\<close>

text \<open>
  The entry that \<^verbatim>\<open>make_config\<close> builds for a device:
  \<^verbatim>\<open>hub_entry = {"name": self.name, "type": "tcp", "host": self.host,
     "port": device_port_for_hub, "sensors": f"!include {sensors_file_path}"}\<close>
\<close>

definition hub_entry :: "string \<Rightarrow> string \<Rightarrow> int \<Rightarrow> string \<Rightarrow> yaml" where
  "hub_entry nm host device_port_for_hub sensors_file_path =
     YDict [(YStr ''name'', YStr nm),
            (YStr ''type'', YStr ''tcp''),
            (YStr ''host'', YStr host),
            (YStr ''port'', YInt device_port_for_hub),
            (YStr ''sensors'', YStr (''!include '' @ sensors_file_path))]"

text \<open>
  The test of the scan, \<^verbatim>\<open>isinstance(entry, dict) and entry.get("name") == self.name\<close>.
  \<^verbatim>\<open>self.name\<close> is a \<^verbatim>\<open>str\<close>, and a Python \<^verbatim>\<open>str\<close> is equal to strings only.
\<close>

fun entry_matches :: "string \<Rightarrow> yaml \<Rightarrow> bool" where
  "entry_matches nm (YDict d) = (map_of d (YStr ''name'') = Some (YStr nm))"
| "entry_matches nm _ = False"

text \<open>
  \<^verbatim>\<open>for i, entry in enumerate(modbus_hubs_list):
      if <test>: modbus_hubs_list[i] = hub_entry; found = True; break
  if not found: modbus_hubs_list.append(hub_entry)\<close>
  \<open>find_named\<close> is the scan up to the \<^verbatim>\<open>break\<close>: the index of the first entry that passes
  the test, or \<open>None\<close> when \<^verbatim>\<open>found\<close> stays false.
\<close>

fun find_named :: "string \<Rightarrow> yaml list \<Rightarrow> nat option" where
  "find_named nm [] = None"
| "find_named nm (entry # rest) =
     (if entry_matches nm entry then Some 0 else map_option Suc (find_named nm rest))"

definition upsert :: "string \<Rightarrow> yaml \<Rightarrow> yaml list \<Rightarrow> yaml list" where
  "upsert nm new_entry modbus_hubs_list =
     (case find_named nm modbus_hubs_list of
        Some i \<Rightarrow> modbus_hubs_list[i := new_entry]
      | None \<Rightarrow> modbus_hubs_list @ [new_entry])"

text \<open>
  The invariant of the registry: no two entries carry the same value under \<^verbatim>\<open>name\<close>.
  Entries that are not mappings, or have no \<^verbatim>\<open>name\<close>, carry no name.
\<close>

fun entry_name :: "yaml \<Rightarrow> yaml option" where
  "entry_name (YDict d) = map_of d (YStr ''name'')"
| "entry_name _ = None"

definition hub_names :: "yaml list \<Rightarrow> yaml list" where
  "hub_names l = List.map_filter entry_name l"

definition names_unique :: "yaml list \<Rightarrow> bool" where
  "names_unique l = distinct (hub_names l)"

definition count_named :: "string \<Rightarrow> yaml list \<Rightarrow> nat" where
  "count_named nm l = length (filter (entry_matches nm) l)"

section \<open>String operations of the program\<close>

text \<open>
  \<^verbatim>\<open>str.lower()\<close> and \<^verbatim>\<open>str.replace(a, b)\<close> with one-character arguments, on ASCII text.
\<close>

definition lower_char :: "char \<Rightarrow> char" where
  "lower_char c =
     (case map_of (zip ''ABCDEFGHIJKLMNOPQRSTUVWXYZ'' ''abcdefghijklmnopqrstuvwxyz'') c of
        Some d \<Rightarrow> d
      | None \<Rightarrow> c)"

definition lower :: "string \<Rightarrow> string" where
  "lower s = map lower_char s"

definition replace_char :: "char \<Rightarrow> char \<Rightarrow> string \<Rightarrow> string" where
  "replace_char a b s = map (\<lambda>c. if c = a then b else c) s"

text \<open>\<^verbatim>\<open>str(n)\<close> of an integer, as the f-strings format it.\<close>

fun str_nat :: "nat \<Rightarrow> string" where
  "str_nat n =
     (if n < 10 then [''0123456789'' ! n]
      else str_nat (n div 10) @ [''0123456789'' ! (n mod 10)])"

declare str_nat.simps [simp del]

definition str_int :: "int \<Rightarrow> string" where
  "str_int i = (if i < 0 then CHR ''-'' # str_nat (nat (- i)) else str_nat (nat i))"

text \<open>
  \<^verbatim>\<open>o.isdigit()\<close> and \<^verbatim>\<open>int(o)\<close> on ASCII text: a string of digits, non-empty, read in
  base ten (leading zeros allowed). On text with other characters Python decides by its
  Unicode tables (a decimal digit of any script counts as a digit); these two definitions
  do not follow it there. Every property below that depends on them is stated for an
  address that passes the test as defined here, which is then ASCII, or for the empty
  address.
\<close>

definition digit_value :: "char \<Rightarrow> int option" where
  "digit_value c = map_of (zip ''0123456789'' [0, 1, 2, 3, 4, 5, 6, 7, 8, 9]) c"

definition isdigit :: "string \<Rightarrow> bool" where
  "isdigit s = (s \<noteq> [] \<and> list_all (\<lambda>c. digit_value c \<noteq> None) s)"

definition int_of_digits :: "string \<Rightarrow> int" where
  "int_of_digits s = foldl (\<lambda>acc c. 10 * acc + (case digit_value c of Some d \<Rightarrow> d | None \<Rightarrow> 0)) 0 s"

text \<open>\<^verbatim>\<open>s.split('.')\<close> and \<^verbatim>\<open>".".join(parts)\<close>.\<close>

fun split_dot :: "string \<Rightarrow> string list" where
  "split_dot [] = [[]]"
| "split_dot (c # cs) =
     (if c = CHR ''.'' then [] # split_dot cs
      else (case split_dot cs of
              p # ps \<Rightarrow> (c # p) # ps
            | [] \<Rightarrow> [[c]]))"

fun join_dot :: "string list \<Rightarrow> string" where
  "join_dot [] = []"
| "join_dot [x] = x"
| "join_dot (x # y # ys) = x @ ''.'' @ join_dot (y # ys)"

section \<open>Registers and devices\<close>

text \<open>
  The dataclass \<^verbatim>\<open>ModbusRegister\<close>. The fields carry the prefix \<open>reg_\<close>, those of
  \<^verbatim>\<open>ModbusDevice\<close> the prefix \<open>dev_\<close>: both classes have a \<^verbatim>\<open>name\<close> and a \<^verbatim>\<open>slave\<close>.
\<close>

record ModbusRegister =
  reg_name :: string
  reg_slave :: int
  reg_address :: int
  reg_data_type :: string
  reg_scale :: "real option"
  reg_unit_of_measurement :: "string option"
  reg_scan_interval :: "int option"
  reg_state_class :: "string option"

definition ModbusRegister_new ::
  "string \<Rightarrow> int \<Rightarrow> int \<Rightarrow> string \<Rightarrow> real option \<Rightarrow> string option \<Rightarrow> int option \<Rightarrow> string option
     \<Rightarrow> ModbusRegister" where
  "ModbusRegister_new nm slave address data_type scale unit_of_measurement scan_interval state_class =
     \<lparr>reg_name = nm, reg_slave = slave, reg_address = address, reg_data_type = data_type,
      reg_scale = scale, reg_unit_of_measurement = unit_of_measurement,
      reg_scan_interval = scan_interval, reg_state_class = state_class\<rparr>"

text \<open>
  \<^verbatim>\<open>ModbusRegister.to_dict\<close>: the four fixed keys, then each optional field that
  \<^verbatim>\<open>is not None\<close>, in the order of the source.
\<close>

definition to_dict :: "ModbusRegister \<Rightarrow> (yaml \<times> yaml) list" where
  "to_dict r =
     [(YStr ''name'', YStr (reg_name r)),
      (YStr ''slave'', YInt (reg_slave r)),
      (YStr ''address'', YInt (reg_address r)),
      (YStr ''data_type'', YStr (reg_data_type r))]
     @ (case reg_scale r of None \<Rightarrow> [] | Some v \<Rightarrow> [(YStr ''scale'', YFloat v)])
     @ (case reg_unit_of_measurement r of None \<Rightarrow> []
        | Some v \<Rightarrow> [(YStr ''unit_of_measurement'', YStr v)])
     @ (case reg_scan_interval r of None \<Rightarrow> [] | Some v \<Rightarrow> [(YStr ''scan_interval'', YInt v)])
     @ (case reg_state_class r of None \<Rightarrow> [] | Some v \<Rightarrow> [(YStr ''state_class'', YStr v)])"

record ModbusDevice =
  dev_name :: string
  dev_slave :: int
  dev_host :: string
  dev_sensors :: "ModbusRegister list"

text \<open>
  \<^verbatim>\<open>ModbusDevice.__init__\<close>: \<^verbatim>\<open>sensors\<close> defaults to the empty list, and the default scan
  interval, when given, is written into every sensor that has none.
\<close>

definition ModbusDevice_init ::
  "string \<Rightarrow> int \<Rightarrow> string \<Rightarrow> int option \<Rightarrow> ModbusRegister list option \<Rightarrow> ModbusDevice" where
  "ModbusDevice_init nm slave host default_sensor_scan_interval sensors =
     (let sensors0 = (case sensors of Some l \<Rightarrow> l | None \<Rightarrow> []) in
      \<lparr>dev_name = nm, dev_slave = slave, dev_host = host,
       dev_sensors =
         (case default_sensor_scan_interval of
            None \<Rightarrow> sensors0
          | Some d \<Rightarrow>
              map (\<lambda>sensor. if reg_scan_interval sensor = None
                             then sensor\<lparr>reg_scan_interval := Some d\<rparr> else sensor) sensors0)\<rparr>)"

text \<open>The register table of \<^verbatim>\<open>ChisageInverter.__init__\<close>, in the order of the source.\<close>

definition inverter_sensors :: "string \<Rightarrow> int \<Rightarrow> ModbusRegister list" where
  "inverter_sensors nm slave = [
     ModbusRegister_new (nm @ '' Inverter Voltage A'') slave 26 ''uint16'' (Some 0.1) (Some ''V'') None None,
     ModbusRegister_new (nm @ '' Inverter Voltage B'') slave 27 ''uint16'' (Some 0.1) (Some ''V'') None None,
     ModbusRegister_new (nm @ '' Inverter Voltage C'') slave 28 ''uint16'' (Some 0.1) (Some ''V'') None None,
     ModbusRegister_new (nm @ '' Inverter Current A'') slave 29 ''uint16'' (Some 0.01) (Some ''A'') None None,
     ModbusRegister_new (nm @ '' Inverter Current B'') slave 30 ''uint16'' (Some 0.01) (Some ''A'') None None,
     ModbusRegister_new (nm @ '' Inverter Current C'') slave 31 ''uint16'' (Some 0.01) (Some ''A'') None None,
     ModbusRegister_new (nm @ '' Grid Voltage A'') slave 32 ''uint16'' (Some 0.1) (Some ''V'') None None,
     ModbusRegister_new (nm @ '' Grid Voltage B'') slave 33 ''uint16'' (Some 0.1) (Some ''V'') None None,
     ModbusRegister_new (nm @ '' Grid Voltage C'') slave 34 ''uint16'' (Some 0.1) (Some ''V'') None None,
     ModbusRegister_new (nm @ '' Grid Current A'') slave 35 ''uint16'' (Some 0.01) (Some ''A'') None None,
     ModbusRegister_new (nm @ '' Grid Current B'') slave 36 ''uint16'' (Some 0.01) (Some ''A'') None None,
     ModbusRegister_new (nm @ '' Grid Current C'') slave 37 ''uint16'' (Some 0.01) (Some ''A'') None None,
     ModbusRegister_new (nm @ '' Load Voltage A'') slave 38 ''uint16'' (Some 0.1) (Some ''V'') None None,
     ModbusRegister_new (nm @ '' Load Voltage B'') slave 39 ''uint16'' (Some 0.1) (Some ''V'') None None,
     ModbusRegister_new (nm @ '' Load Voltage C'') slave 40 ''uint16'' (Some 0.1) (Some ''V'') None None,
     ModbusRegister_new (nm @ '' Load Current A'') slave 41 ''uint16'' (Some 0.01) (Some ''A'') None None,
     ModbusRegister_new (nm @ '' Load Current B'') slave 42 ''uint16'' (Some 0.01) (Some ''A'') None None,
     ModbusRegister_new (nm @ '' Load Current C'') slave 43 ''uint16'' (Some 0.01) (Some ''A'') None None,
     ModbusRegister_new (nm @ '' Diesel Generator Voltage A'') slave 44 ''uint16'' (Some 0.1) (Some ''V'') None None,
     ModbusRegister_new (nm @ '' Diesel Generator Voltage B'') slave 45 ''uint16'' (Some 0.1) (Some ''V'') None None,
     ModbusRegister_new (nm @ '' Diesel Generator Voltage C'') slave 46 ''uint16'' (Some 0.1) (Some ''V'') None None,
     ModbusRegister_new (nm @ '' Diesel Generator Current A'') slave 47 ''uint16'' (Some 0.01) (Some ''A'') None None,
     ModbusRegister_new (nm @ '' Diesel Generator Current B'') slave 48 ''uint16'' (Some 0.01) (Some ''A'') None None,
     ModbusRegister_new (nm @ '' Diesel Generator Current C'') slave 49 ''uint16'' (Some 0.01) (Some ''A'') None None,
     ModbusRegister_new (nm @ '' Inverter Positive Bus Voltage'') slave 50 ''uint16'' (Some 0.1) (Some ''V'') None None,
     ModbusRegister_new (nm @ '' Negative Bus Voltage'') slave 51 ''uint16'' (Some 0.1) (Some ''V'') None None,
     ModbusRegister_new (nm @ '' Inverter Frequency'') slave 52 ''int16'' (Some 0.01) (Some ''Hz'') None None,
     ModbusRegister_new (nm @ '' Grid Frequency'') slave 53 ''int16'' (Some 0.01) (Some ''Hz'') None None,
     ModbusRegister_new (nm @ '' Diesel Generator Output Frequency'') slave 54 ''int16'' (Some 0.01) (Some ''Hz'') None None,
     ModbusRegister_new (nm @ '' Maximum Temperature'') slave 56 ''uint16'' (Some 0.1) (Some [CHR 0xC2, CHR 0xB0, CHR ''C'']) None None,
     ModbusRegister_new (nm @ '' Inverter Working Stage'') slave 57 ''uint16'' None (Some '''') None None,
     ModbusRegister_new (nm @ '' External CT Power A'') slave 58 ''uint16'' (Some 0.01) (Some ''W'') None (Some ''measurement''),
     ModbusRegister_new (nm @ '' External CT Power B'') slave 59 ''uint16'' (Some 0.01) (Some ''W'') None (Some ''measurement''),
     ModbusRegister_new (nm @ '' External CT Power C'') slave 60 ''uint16'' (Some 0.01) (Some ''W'') None (Some ''measurement''),
     ModbusRegister_new (nm @ '' External CT Current A'') slave 61 ''uint16'' (Some 0.01) (Some ''A'') None None,
     ModbusRegister_new (nm @ '' External CT Current B'') slave 62 ''uint16'' (Some 0.01) (Some ''A'') None None,
     ModbusRegister_new (nm @ '' Battery Voltage'') slave 2026 ''int16'' (Some 0.01) (Some ''V'') None None,
     ModbusRegister_new (nm @ '' Battery Current'') slave 2027 ''int16'' (Some 0.1) (Some ''A'') None None,
     ModbusRegister_new (nm @ '' Photovoltaic 1 Voltage'') slave 2028 ''int16'' (Some 0.1) (Some ''V'') None None,
     ModbusRegister_new (nm @ '' Photovoltaic 1 Current'') slave 2029 ''int16'' (Some 0.01) (Some ''A'') None None,
     ModbusRegister_new (nm @ '' Photovoltaic 2 Voltage'') slave 2030 ''int16'' (Some 0.1) (Some ''V'') None None,
     ModbusRegister_new (nm @ '' Photovoltaic 2 Current'') slave 2031 ''int16'' (Some 0.01) (Some ''A'') None None,
     ModbusRegister_new (nm @ '' DC Bus Voltage'') slave 2032 ''int16'' (Some 0.1) (Some ''V'') None None,
     ModbusRegister_new (nm @ '' DC Positive Bus Voltage'') slave 2033 ''int16'' (Some 0.1) (Some ''V'') None None,
     ModbusRegister_new (nm @ '' Buck Voltage'') slave 2034 ''int16'' (Some 0.1) (Some ''V'') None None,
     ModbusRegister_new (nm @ '' Buck Current'') slave 2035 ''int16'' (Some 0.01) (Some ''A'') None None,
     ModbusRegister_new (nm @ '' Battery Power'') slave 2036 ''int16'' (Some 1) (Some ''W'') None (Some ''measurement''),
     ModbusRegister_new (nm @ '' Photovoltaic 1 Power'') slave 2037 ''int16'' (Some 1) (Some ''W'') None (Some ''measurement''),
     ModbusRegister_new (nm @ '' Photovoltaic 2 Power'') slave 2038 ''int16'' (Some 1) (Some ''W'') None (Some ''measurement''),
     ModbusRegister_new (nm @ '' Battery SOC'') slave 2039 ''uint16'' (Some 1) (Some ''%'') None (Some ''measurement'')
   ]"

definition ChisageInverter :: "string \<Rightarrow> int \<Rightarrow> string \<Rightarrow> int \<Rightarrow> ModbusDevice" where
  "ChisageInverter nm slave host default_sensor_scan_interval =
     ModbusDevice_init nm slave host (Some default_sensor_scan_interval)
       (Some (inverter_sensors nm slave))"

section \<open>The YAML library, the console and the files\<close>

text \<open>
  An exception that nothing in the program catches: the \<^verbatim>\<open>NameError\<close> of a local variable
  that no branch assigned, the \<^verbatim>\<open>TypeError\<close> of an operator applied to the wrong types, and
  any other exception by the name of its class and its text.
\<close>

datatype exn =
    NameError string
  | TypeError string
  | OtherException string string

text \<open>
  The nodes that PyYAML composes from a document and hands to a constructor: each has a tag
  and a value, the text of a scalar, the list of the items of a sequence, or the list of
  the key and value pairs of a mapping.
\<close>

datatype node =
    ScalarNode string string
  | SequenceNode string "node list"
  | MappingNode string "(node \<times> node) list"

text \<open>
  \<^verbatim>\<open>include_constructor(loader, node)\<close>, the constructor the program registers for the tag
  \<^verbatim>\<open>!include\<close>: \<^verbatim>\<open>return node.tag + ' ' + node.value\<close>. The value of a scalar node is a
  \<^verbatim>\<open>str\<close>; the value of a sequence or mapping node is a \<^verbatim>\<open>list\<close>, and \<^verbatim>\<open>+\<close> of a \<^verbatim>\<open>str\<close> and a
  \<^verbatim>\<open>list\<close> raises \<^verbatim>\<open>TypeError\<close>.
\<close>

fun include_constructor :: "node \<Rightarrow> exn + string" where
  "include_constructor (ScalarNode node_tag node_value) = Inr (node_tag @ '' '' @ node_value)"
| \<open>include_constructor (SequenceNode node_tag node_value) =
     Inl (TypeError ''can only concatenate str (not "list") to str'')\<close>
| \<open>include_constructor (MappingNode node_tag node_value) =
     Inl (TypeError ''can only concatenate str (not "list") to str'')\<close>

text \<open>
  PyYAML is not part of the program. Its two entry points are parameters of the model.
  \<open>yaml_dump\<close> is \<^verbatim>\<open>yaml.dump(data, sort_keys=False, indent=2)\<close>. \<open>yaml_safe_load\<close> is
  \<^verbatim>\<open>yaml.safe_load(f)\<close> on an open file, given the constructor registered for \<^verbatim>\<open>!include\<close>
  and the content of the file. The call returns the loaded data, or raises a
  \<^verbatim>\<open>yaml.YAMLError\<close> (with its text), or raises any other exception: the one of the registered
  constructor, a \<^verbatim>\<open>UnicodeDecodeError\<close> of the file object that it reads, a \<^verbatim>\<open>ValueError\<close> of
  one of its own constructors. Nothing is assumed about either function unless a theorem
  states it.
\<close>

datatype load_result =
    Loaded yaml
  | YAMLError string
  | Raised exn

record yaml_lib =
  yaml_dump :: "yaml \<Rightarrow> string"
  yaml_safe_load :: "(node \<Rightarrow> exn + string) \<Rightarrow> string \<Rightarrow> load_result"

text \<open>
  For runs on concrete inputs the parameter is instantiated by a stand-in. \<open>fixed_lib text
  result\<close> dumps every value as \<open>text\<close> and loads every text as \<open>result\<close>. \<open>table_lib dumps
  loads\<close> dumps and loads by two finite tables, one from values to texts and one from texts
  to what the loader does with the registered constructor; a value that is not in the table
  is dumped as the empty text and a text that is not in the table is refused with a
  \<^verbatim>\<open>YAMLError\<close>. The tables of the stand-ins below hold what PyYAML 6.0 does at the values
  and texts in them. The theorems that are not about one concrete run hold for every
  library.
\<close>

definition fixed_lib :: "string \<Rightarrow> load_result \<Rightarrow> yaml_lib" where
  "fixed_lib text result = \<lparr>yaml_dump = (\<lambda>v. text), yaml_safe_load = (\<lambda>constructor t. result)\<rparr>"


text \<open>Every \<^verbatim>\<open>print\<close> of the program is one message (consecutive prints are merged).\<close>

datatype message =
    IPModeIncremental string
  | IPModeFixed string
  | ErrorInvalidIPStart
  | ErrorInvalidIPFixed
  | PortModeIncremental int
  | PortModeFixed int
  | ErrorCount
  | Generating int int
  | ErrorRangeOverflow "string option" int int
  | Creating int string string int int
  | GeneratedCard string
  | WarnUnexpectedFormat
  | WarnParseError string
  | SuccessfullyGenerated

text \<open>
  The working directory is a flat map from paths to file contents; \<^verbatim>\<open>os.makedirs\<close> and
  \<^verbatim>\<open>open(path, "w")\<close> always succeed in it, and \<^verbatim>\<open>open(path, "r")\<close> succeeds on every path
  that holds a file. \<open>out\<close> is the console output so far.
\<close>

record world =
  files :: "string \<rightharpoonup> string"
  out :: "message list"

definition write_file :: "string \<Rightarrow> string \<Rightarrow> world \<Rightarrow> world" where
  "write_file path text w = w\<lparr>files := (files w)(path \<mapsto> text)\<rparr>"

definition print_all :: "message list \<Rightarrow> world \<Rightarrow> world" where
  "print_all msgs w = w\<lparr>out := out w @ msgs\<rparr>"

section \<open>The substitution on the dumped registry\<close>

text \<open>
  \<^verbatim>\<open>re.sub(r"'(!include [^']+\.yaml)'", r"\1", yaml_output_string)\<close>.

  \<open>match_include s\<close> is the match of the pattern at the start of \<open>s\<close>: the group and the
  text after the match. After \<^verbatim>\<open>'!include \<close> the class \<^verbatim>\<open>[^']+\<close> can only run inside the
  maximal quote-free stretch \<open>body\<close>; the closing quote of the pattern must be the quote that
  ends that stretch, so the stretch ends in \<^verbatim>\<open>.yaml\<close> with at least one character before it.
  \<open>re_sub_include\<close> scans from the left, replaces each match by its group and resumes after
  the match, as \<^verbatim>\<open>re.sub\<close> does for non-overlapping matches.
\<close>

definition match_include :: "string \<Rightarrow> (string \<times> string) option" where
  "match_include s =
     (if take 10 s = CHR 0x27 # ''!include '' then
        (let body = takeWhile (\<lambda>c. c \<noteq> CHR 0x27) (drop 10 s);
             after = dropWhile (\<lambda>c. c \<noteq> CHR 0x27) (drop 10 s)
         in if after \<noteq> [] \<and> 6 \<le> length body \<and> drop (length body - 5) body = ''.yaml''
            then Some (''!include '' @ body, tl after)
            else None)
      else None)"

lemma match_include_shorter:
  "match_include s = Some (g, rest) \<Longrightarrow> length rest < length s"
proof -
  assume m: "match_include s = Some (g, rest)"
  let ?t = "drop 10 s"
  from m have a: "dropWhile (\<lambda>c. c \<noteq> CHR 0x27) ?t \<noteq> []"
    and r: "rest = tl (dropWhile (\<lambda>c. c \<noteq> CHR 0x27) ?t)"
    by (auto simp: match_include_def Let_def split: if_splits)
  have "length (dropWhile (\<lambda>c. c \<noteq> CHR 0x27) ?t) \<le> length ?t"
    by (rule length_dropWhile_le)
  with a r show ?thesis
    by (cases "dropWhile (\<lambda>c. c \<noteq> CHR 0x27) ?t") simp_all
qed

function re_sub_include :: "string \<Rightarrow> string" where
  "re_sub_include [] = []"
| "re_sub_include (c # cs) =
     (case match_include (c # cs) of
        Some (g, rest) \<Rightarrow> g @ re_sub_include rest
      | None \<Rightarrow> c # re_sub_include cs)"
  by pat_completeness auto
termination
  by (relation "measure length") (auto dest: match_include_shorter)

text \<open>
  The paths that the pattern accepts between the quotes: no quote, \<^verbatim>\<open>.yaml\<close> at the end,
  and at least one character before it.
\<close>

definition include_path_ok :: "string \<Rightarrow> bool" where
  "include_path_ok p = (CHR 0x27 \<notin> set p \<and> 6 \<le> length p \<and> drop (length p - 5) p = ''.yaml'')"

section \<open>make_config\<close>

definition modbus_hubs_filename :: string where
  "modbus_hubs_filename = ''modbus_devices.yaml''"

text \<open>
  \<^verbatim>\<open>safe_device_name_part = self.name.lower().replace(' ', '_').replace('-', '_')
  sensors_file_path = f"chisage/{safe_device_name_part}_sensors.yaml"\<close>
\<close>

definition safe_device_name_part :: "string \<Rightarrow> string" where
  "safe_device_name_part nm = replace_char CHR ''-'' CHR ''_'' (replace_char CHR '' '' CHR ''_'' (lower nm))"

definition sensors_file_path :: "string \<Rightarrow> string" where
  "sensors_file_path nm = ''chisage/'' @ safe_device_name_part nm @ ''_sensors.yaml''"

definition sensor_config_list :: "ModbusDevice \<Rightarrow> yaml" where
  "sensor_config_list dev = YList (map (\<lambda>s. YDict (to_dict s)) (dev_sensors dev))"

text \<open>
  The shape test on the loaded data: a list is taken as it is, a dict with a list under
  \<^verbatim>\<open>modbus\<close> gives that list, \<^verbatim>\<open>None\<close> gives the empty list silently, and anything else
  gives the empty list with the warning.
\<close>

fun resolve_loaded :: "yaml \<Rightarrow> yaml list \<times> message list" where
  "resolve_loaded (YList l) = (l, [])"
| "resolve_loaded (YDict d) =
     (case map_of d (YStr ''modbus'') of
        Some (YList l) \<Rightarrow> (l, [])
      | _ \<Rightarrow> ([], [WarnUnexpectedFormat]))"
| "resolve_loaded YNull = ([], [])"
| "resolve_loaded _ = ([], [WarnUnexpectedFormat])"

text \<open>
  The \<^verbatim>\<open>try\<close> block: \<^verbatim>\<open>FileNotFoundError\<close> is passed over, a \<^verbatim>\<open>yaml.YAMLError\<close> prints its
  warning; in both cases \<^verbatim>\<open>modbus_hubs_list\<close> stays \<^verbatim>\<open>[]\<close>. Any other exception of
  \<^verbatim>\<open>yaml.safe_load\<close> has no handler and leaves the block (\<open>Inl\<close>).
\<close>

definition load_hubs :: "yaml_lib \<Rightarrow> world \<Rightarrow> exn + (yaml list \<times> message list)" where
  "load_hubs Y w =
     (case files w modbus_hubs_filename of
        None \<Rightarrow> Inr ([], [])
      | Some text \<Rightarrow>
          (case yaml_safe_load Y include_constructor text of
             Loaded loaded_data \<Rightarrow> Inr (resolve_loaded loaded_data)
           | YAMLError e \<Rightarrow> Inr ([], [WarnParseError e])
           | Raised e \<Rightarrow> Inl e))"

text \<open>
  \<^verbatim>\<open>make_config\<close> writes the sensor file, loads the registry, replaces or appends the entry
  of the device and writes the registry. The result is the exception that left the method,
  if any, and the world at that point: an exception of the load leaves it after the sensor
  file has been written and before the registry is.
\<close>

definition make_config :: "yaml_lib \<Rightarrow> ModbusDevice \<Rightarrow> int \<Rightarrow> world \<Rightarrow> exn option \<times> world" where
  "make_config Y dev device_port_for_hub w =
     (let path = sensors_file_path (dev_name dev);
          w1 = write_file path (yaml_dump Y (sensor_config_list dev)) w
      in case load_hubs Y w1 of
           Inl e \<Rightarrow> (Some e, w1)
         | Inr (modbus_hubs_list, warnings) \<Rightarrow>
             (let w2 = print_all warnings w1;
                  new_entry = hub_entry (dev_name dev) (dev_host dev) device_port_for_hub path;
                  yaml_output_string =
                    yaml_dump Y (YList (upsert (dev_name dev) new_entry modbus_hubs_list));
                  corrected_yaml_string = re_sub_include yaml_output_string
              in (None, write_file modbus_hubs_filename corrected_yaml_string w2)))"

section \<open>The dashboard card\<close>

definition card_entity :: "ModbusDevice \<Rightarrow> ModbusRegister \<Rightarrow> yaml" where
  "card_entity dev reg =
     (let sensor_name_sanitized = replace_char CHR '' '' CHR ''_'' (lower (reg_name reg));
          entity_id = ''sensor.'' @ sensor_name_sanitized;
          pre = dev_name dev @ '' '';
          display_name_in_card =
            (if take (length pre) (reg_name reg) = pre
             then drop (length (dev_name dev) + 1) (reg_name reg) else reg_name reg)
      in YDict [(YStr ''entity'', YStr entity_id), (YStr ''name'', YStr display_name_in_card)])"

definition card_config :: "ModbusDevice \<Rightarrow> yaml" where
  "card_config dev =
     YDict [(YStr ''type'', YStr ''entities''),
            (YStr ''title'', YStr (dev_name dev)),
            (YStr ''entities'', YList (map (card_entity dev) (dev_sensors dev)))]"

definition card_filename :: "string \<Rightarrow> string" where
  "card_filename device_instance_name =
     ''chisage/'' @ replace_char CHR '' '' CHR ''_'' (lower device_instance_name) @ ''_card.yaml''"

definition generate_card :: "yaml_lib \<Rightarrow> ModbusDevice \<Rightarrow> world \<Rightarrow> world" where
  "generate_card Y dev w =
     print_all [GeneratedCard (card_filename (dev_name dev))]
       (write_file (card_filename (dev_name dev)) (yaml_dump Y (card_config dev)) w)"

section \<open>The main program\<close>

text \<open>
  The arguments as \<^verbatim>\<open>argparse\<close> delivers them. An option that was not given is \<^verbatim>\<open>None\<close>;
  each of the two exclusive groups is required, so exactly one option of each group is given.
\<close>

record args =
  args_count :: int
  args_slave_id :: int
  args_ip_start :: "string option"
  args_ip_fixed :: "string option"
  args_port_start :: "int option"
  args_port_fixed :: "int option"
  args_generate_cards :: bool

definition parsed_by_argparse :: "args \<Rightarrow> bool" where
  "parsed_by_argparse a =
     ((args_ip_start a = None) \<noteq> (args_ip_fixed a = None)
      \<and> (args_port_start a = None) \<noteq> (args_port_fixed a = None))"

text \<open>
  The tests \<^verbatim>\<open>if args.ip_start:\<close> and \<^verbatim>\<open>if args.port_start:\<close> are truth tests: \<^verbatim>\<open>None\<close>, the
  empty string and the number zero are false.
\<close>

definition truthy_str :: "string option \<Rightarrow> string option" where
  "truthy_str x = (case x of Some s \<Rightarrow> (if s = [] then None else Some s) | None \<Rightarrow> None)"

definition truthy_int :: "int option \<Rightarrow> int option" where
  "truthy_int x = (case x of Some n \<Rightarrow> (if n = 0 then None else Some n) | None \<Rightarrow> None)"

text \<open>
  \<^verbatim>\<open>len(ip_octets) != 4 or not all(o.isdigit() and 0 <= int(o) <= 255 for o in ip_octets)\<close>
  raises the \<^verbatim>\<open>ValueError\<close>; \<open>ip_format_ok\<close> is the negation of that test.
\<close>

definition octet_ok :: "string \<Rightarrow> bool" where
  "octet_ok oct = (isdigit oct \<and> 0 \<le> int_of_digits oct \<and> int_of_digits oct \<le> 255)"

definition ip_format_ok :: "string list \<Rightarrow> bool" where
  "ip_format_ok ip_octets = (length ip_octets = 4 \<and> list_all octet_ok ip_octets)"

text \<open>
  The local variables of the two setup blocks. A variable that no branch assigned is
  \<open>None\<close>; reading it raises \<^verbatim>\<open>NameError\<close>.
\<close>

record ip_vars =
  ip_mode_is_start :: bool
  base_ip_prefix :: "string option"
  last_octet_start :: "int option"
  fixed_ip_str :: "string option"

record port_vars =
  port_mode_is_start :: bool
  port_to_process :: "int option"

text \<open>
  The IP block: \<open>Inl\<close> is the branch that prints \<^verbatim>\<open>Error: ...\<close> and calls \<^verbatim>\<open>exit(1)\<close>.
\<close>

definition ip_address_setup :: "args \<Rightarrow> message + (message list \<times> ip_vars)" where
  "ip_address_setup a =
     (case truthy_str (args_ip_start a) of
        Some ip_to_process \<Rightarrow>
          (let ip_octets = split_dot ip_to_process in
           if \<not> ip_format_ok ip_octets then Inl ErrorInvalidIPStart
           else Inr ([IPModeIncremental ip_to_process],
                  \<lparr>ip_mode_is_start = True,
                   base_ip_prefix = Some (join_dot (take 3 ip_octets)),
                   last_octet_start = Some (int_of_digits (ip_octets ! 3)),
                   fixed_ip_str = None\<rparr>))
      | None \<Rightarrow>
          (case truthy_str (args_ip_fixed a) of
             Some ip_to_process \<Rightarrow>
               (let ip_octets = split_dot ip_to_process in
                if \<not> ip_format_ok ip_octets then Inl ErrorInvalidIPFixed
                else Inr ([IPModeFixed ip_to_process],
                       \<lparr>ip_mode_is_start = False, base_ip_prefix = None,
                        last_octet_start = None, fixed_ip_str = Some ip_to_process\<rparr>))
           | None \<Rightarrow>
               Inr ([], \<lparr>ip_mode_is_start = False, base_ip_prefix = None,
                         last_octet_start = None, fixed_ip_str = None\<rparr>)))"

definition port_number_setup :: "args \<Rightarrow> message list \<times> port_vars" where
  "port_number_setup a =
     (case truthy_int (args_port_start a) of
        Some p \<Rightarrow> ([PortModeIncremental p], \<lparr>port_mode_is_start = True, port_to_process = Some p\<rparr>)
      | None \<Rightarrow>
          (case truthy_int (args_port_fixed a) of
             Some p \<Rightarrow> ([PortModeFixed p], \<lparr>port_mode_is_start = False, port_to_process = Some p\<rparr>)
           | None \<Rightarrow> ([], \<lparr>port_mode_is_start = False, port_to_process = None\<rparr>)))"

text \<open>
  How a run ends: it reaches the last line, it calls \<^verbatim>\<open>exit(n)\<close>, or an exception escapes
  (the interpreter prints the traceback and the process ends with status 1).
\<close>

datatype outcome = Finished | Exited int | Uncaught exn

fun exit_status :: "outcome \<Rightarrow> int" where
  "exit_status Finished = 0"
| "exit_status (Exited n) = n"
| "exit_status (Uncaught e) = 1"

text \<open>
  The body of the generation loop. The host and the port of the instance come first; an
  exception that leaves \<^verbatim>\<open>make_config\<close> ends the run.
\<close>

definition current_host_ip :: "args \<Rightarrow> ip_vars \<Rightarrow> int \<Rightarrow> (outcome \<times> message list) + string" where
  "current_host_ip a iv i =
     (if ip_mode_is_start iv then
        (case last_octet_start iv of
           None \<Rightarrow> Inl (Uncaught (NameError ''last_octet_start''), [])
         | Some l \<Rightarrow>
             (let current_last_octet = l + i in
              if current_last_octet > 255
              then Inl (Exited 1, [ErrorRangeOverflow (args_ip_start a) i current_last_octet])
              else (case base_ip_prefix iv of
                      None \<Rightarrow> Inl (Uncaught (NameError ''base_ip_prefix''), [])
                    | Some pre \<Rightarrow> Inr (pre @ ''.'' @ str_int current_last_octet))))
      else (case fixed_ip_str iv of
              None \<Rightarrow> Inl (Uncaught (NameError ''fixed_ip_str''), [])
            | Some h \<Rightarrow> Inr h))"

definition current_port_val :: "port_vars \<Rightarrow> int \<Rightarrow> (outcome \<times> message list) + int" where
  "current_port_val pv i =
     (case port_to_process pv of
        None \<Rightarrow> Inl (Uncaught (NameError ''port_to_process''), [])
      | Some p \<Rightarrow> Inr (if port_mode_is_start pv then p + i else p))"

definition device_instance_name :: "int \<Rightarrow> string" where
  "device_instance_name i = ''Chisage '' @ str_int (i + 1)"

definition loop_body ::
  "yaml_lib \<Rightarrow> args \<Rightarrow> ip_vars \<Rightarrow> port_vars \<Rightarrow> int \<Rightarrow> world \<Rightarrow> outcome option \<times> world" where
  "loop_body Y a iv pv i w =
     (case current_host_ip a iv i of
        Inl (stop, msgs) \<Rightarrow> (Some stop, print_all msgs w)
      | Inr host \<Rightarrow>
          (case current_port_val pv i of
             Inl (stop, msgs) \<Rightarrow> (Some stop, print_all msgs w)
           | Inr port \<Rightarrow>
               (let nm = device_instance_name i;
                    w1 = print_all [Creating (i + 1) nm host port (args_slave_id a)] w;
                    inverter_device = ChisageInverter nm (args_slave_id a) host 20
                in case make_config Y inverter_device port w1 of
                     (Some e, w2) \<Rightarrow> (Some (Uncaught e), w2)
                   | (None, w2) \<Rightarrow>
                       (None, if args_generate_cards a then generate_card Y inverter_device w2
                              else w2))))"

text \<open>\<^verbatim>\<open>for i in range(inverter_count_num)\<close>, over the list of the indices.\<close>

fun generation_loop ::
  "yaml_lib \<Rightarrow> args \<Rightarrow> ip_vars \<Rightarrow> port_vars \<Rightarrow> int list \<Rightarrow> world \<Rightarrow> outcome \<times> world" where
  "generation_loop Y a iv pv [] w = (Finished, w)"
| "generation_loop Y a iv pv (i # rest) w =
     (case loop_body Y a iv pv i w of
        (Some stop, w') \<Rightarrow> (stop, w')
      | (None, w') \<Rightarrow> generation_loop Y a iv pv rest w')"

definition run :: "yaml_lib \<Rightarrow> args \<Rightarrow> world \<Rightarrow> outcome \<times> world" where
  "run Y a w =
     (case ip_address_setup a of
        Inl err \<Rightarrow> (Exited 1, print_all [err] w)
      | Inr (ip_msgs, iv) \<Rightarrow>
          (let (port_msgs, pv) = port_number_setup a;
               w1 = print_all port_msgs (print_all ip_msgs w)
           in if args_count a \<le> 0 then (Exited 1, print_all [ErrorCount] w1)
              else (case generation_loop Y a iv pv [0 .. args_count a - 1]
                           (print_all [Generating (args_count a) (args_slave_id a)] w1) of
                      (Finished, w2) \<Rightarrow> (Finished, print_all [SuccessfullyGenerated] w2)
                    | (stop, w2) \<Rightarrow> (stop, w2))))"

section \<open>Notions used to state the properties\<close>

text \<open>
  The IP argument and the port argument of an invocation: the option of the group that
  was given.
\<close>

definition ip_argument :: "args \<Rightarrow> string" where
  "ip_argument a =
     (case args_ip_start a of
        Some s \<Rightarrow> s
      | None \<Rightarrow> (case args_ip_fixed a of Some s \<Rightarrow> s | None \<Rightarrow> []))"

definition port_argument :: "args \<Rightarrow> int" where
  "port_argument a =
     (case args_port_start a of
        Some p \<Rightarrow> p
      | None \<Rightarrow> (case args_port_fixed a of Some p \<Rightarrow> p | None \<Rightarrow> 0))"

text \<open>
  The device tuples of a run, read off the console: each \<^verbatim>\<open>Creating Inverter\<close> line is
  printed with the name, host, port and slave id that the constructor and \<^verbatim>\<open>make_config\<close>
  receive right after it.
\<close>

fun creating_tuple :: "message \<Rightarrow> (string \<times> string \<times> int \<times> int) option" where
  "creating_tuple (Creating k nm host port slave) = Some (nm, host, port, slave)"
| "creating_tuple _ = None"

definition derived :: "message list \<Rightarrow> (string \<times> string \<times> int \<times> int) list" where
  "derived msgs = List.map_filter creating_tuple msgs"

text \<open>A run that an uncaught exception ended.\<close>

fun is_uncaught :: "outcome \<Rightarrow> bool" where
  "is_uncaught (Uncaught e) = True"
| "is_uncaught _ = False"

text \<open>
  The list that a call of \<^verbatim>\<open>make_config\<close> dumps into the registry file, when the load of the
  registry gave the list \<open>modbus_hubs_list\<close>.
\<close>

definition written_list :: "ModbusDevice \<Rightarrow> int \<Rightarrow> yaml list \<Rightarrow> yaml list" where
  "written_list dev device_port_for_hub modbus_hubs_list =
     upsert (dev_name dev)
       (hub_entry (dev_name dev) (dev_host dev) device_port_for_hub (sensors_file_path (dev_name dev)))
       modbus_hubs_list"
section \<open>Properties of the upsert\<close>

lemma entry_matches_iff_name: "entry_matches nm e \<longleftrightarrow> entry_name e = Some (YStr nm)"
  by (cases e) simp_all

lemma entry_matches_hub_entry [simp]: "entry_matches nm (hub_entry nm host port p)"
  by (simp add: hub_entry_def)

lemma entry_name_hub_entry [simp]: "entry_name (hub_entry nm host port p) = Some (YStr nm)"
  by (simp add: hub_entry_def)

lemma find_named_None_iff: "find_named nm l = None \<longleftrightarrow> list_all (\<lambda>e. \<not> entry_matches nm e) l"
  by (induction l) auto

lemma find_named_Some:
  "find_named nm l = Some i \<Longrightarrow>
     i < length l \<and> entry_matches nm (l ! i) \<and> list_all (\<lambda>e. \<not> entry_matches nm e) (take i l)"
proof (induction l arbitrary: i)
  case Nil
  then show ?case by simp
next
  case (Cons e l)
  show ?case
  proof (cases "entry_matches nm e")
    case True
    with Cons.prems show ?thesis by simp
  next
    case False
    with Cons.prems obtain k where k: "find_named nm l = Some k" and i: "i = Suc k"
      by auto
    from Cons.IH [OF k] False show ?thesis by (simp add: i)
  qed
qed

lemma hub_names_Nil [simp]: "hub_names [] = []"
  by (simp add: hub_names_def List.map_filter_simps)

lemma hub_names_Cons:
  "hub_names (e # l) = (case entry_name e of None \<Rightarrow> hub_names l | Some n \<Rightarrow> n # hub_names l)"
  by (cases "entry_name e") (simp_all add: hub_names_def List.map_filter_simps)

lemma hub_names_append: "hub_names (l @ l') = hub_names l @ hub_names l'"
  by (simp add: hub_names_def List.map_filter_def)

lemma hub_names_update:
  "i < length l \<Longrightarrow> entry_name (l ! i) = entry_name e \<Longrightarrow> hub_names (l[i := e]) = hub_names l"
proof (induction l arbitrary: i)
  case Nil
  then show ?case by simp
next
  case (Cons x l)
  then show ?case by (cases i) (simp_all add: hub_names_Cons split: option.splits)
qed

lemma not_named_notin_hub_names:
  "list_all (\<lambda>e. \<not> entry_matches nm e) l \<Longrightarrow> YStr nm \<notin> set (hub_names l)"
  by (induction l) (auto simp: hub_names_Cons entry_matches_iff_name split: option.splits)

lemma names_unique_upsert:
  assumes "names_unique l" and "entry_name e = Some (YStr nm)"
  shows "names_unique (upsert nm e l)"
proof (cases "find_named nm l")
  case None
  then have "YStr nm \<notin> set (hub_names l)"
    by (simp add: find_named_None_iff not_named_notin_hub_names)
  with assms None show ?thesis
    by (simp add: upsert_def names_unique_def hub_names_append hub_names_Cons)
next
  case (Some i)
  from find_named_Some [OF Some] have "i < length l" and "entry_name (l ! i) = entry_name e"
    by (simp_all add: entry_matches_iff_name assms(2))
  then have "hub_names (l[i := e]) = hub_names l"
    by (rule hub_names_update)
  with assms Some show ?thesis
    by (simp add: upsert_def names_unique_def)
qed

lemma find_named_update_same:
  "find_named nm l = Some i \<Longrightarrow> entry_matches nm e \<Longrightarrow> find_named nm (l[i := e]) = Some i"
proof (induction l arbitrary: i)
  case Nil
  then show ?case by simp
next
  case (Cons x l)
  show ?case
  proof (cases "entry_matches nm x")
    case True
    with Cons.prems show ?thesis by simp
  next
    case False
    with Cons.prems obtain k where k: "find_named nm l = Some k" and i: "i = Suc k"
      by auto
    from Cons.IH [OF k Cons.prems(2)] False show ?thesis by (simp add: i)
  qed
qed

lemma find_named_append_new:
  "find_named nm l = None \<Longrightarrow> entry_matches nm e \<Longrightarrow> find_named nm (l @ [e]) = Some (length l)"
  by (induction l) (auto split: if_splits)

lemma upsert_idem:
  assumes "entry_matches nm e"
  shows "upsert nm e (upsert nm e l) = upsert nm e l"
proof (cases "find_named nm l")
  case None
  then show ?thesis
    by (simp add: upsert_def find_named_append_new [OF None assms])
next
  case (Some i)
  then show ?thesis
    by (simp add: upsert_def find_named_update_same [OF Some assms])
qed

lemma count_named_le_one:
  "names_unique l \<Longrightarrow> count_named nm l \<le> 1"
proof (induction l)
  case Nil
  then show ?case by (simp add: count_named_def)
next
  case (Cons x l)
  show ?case
  proof (cases "entry_matches nm x")
    case True
    then have x: "entry_name x = Some (YStr nm)"
      by (simp add: entry_matches_iff_name)
    with Cons.prems have "YStr nm \<notin> set (hub_names l)"
      by (simp add: names_unique_def hub_names_Cons)
    then have "filter (entry_matches nm) l = []"
      by (induction l) (auto simp: hub_names_Cons entry_matches_iff_name split: option.splits)
    with True show ?thesis by (simp add: count_named_def)
  next
    case False
    from Cons.prems have "names_unique l"
      by (auto simp: names_unique_def hub_names_Cons split: option.splits)
    with Cons.IH False show ?thesis by (simp add: count_named_def)
  qed
qed

lemma count_named_upsert_pos:
  "entry_matches nm e \<Longrightarrow> 0 < count_named nm (upsert nm e l)"
proof -
  assume e: "entry_matches nm e"
  have "e \<in> set (upsert nm e l)"
  proof (cases "find_named nm l")
    case None
    then show ?thesis by (simp add: upsert_def)
  next
    case (Some i)
    from find_named_Some [OF Some] have "i < length l" by simp
    with Some show ?thesis by (simp add: upsert_def set_update_memI)
  qed
  with e have "e \<in> set (filter (entry_matches nm) (upsert nm e l))" by simp
  then show ?thesis
    unfolding count_named_def by (metis length_pos_if_in_set)
qed

lemma two_matches_count:
  assumes "i < length l" "j < length l" "i \<noteq> j" "entry_matches nm (l ! i)" "entry_matches nm (l ! j)"
  shows "2 \<le> count_named nm l"
proof -
  define a where "a = min i j"
  define b where "b = max i j"
  have ab: "a < b" "b < length l" "entry_matches nm (l ! a)" "entry_matches nm (l ! b)"
    using assms by (auto simp: a_def b_def min_def max_def)
  have l: "l = take b l @ l ! b # drop (Suc b) l"
    using ab(2) by (simp add: id_take_nth_drop)
  have "take b l ! a = l ! a" "a < length (take b l)"
    using ab(1,2) by simp_all
  then have "l ! a \<in> set (take b l)"
    by (metis nth_mem)
  with ab(3) have "l ! a \<in> set (filter (entry_matches nm) (take b l))"
    by simp
  then have p1: "1 \<le> length (filter (entry_matches nm) (take b l))"
    by (metis length_pos_if_in_set less_eq_Suc_le One_nat_def)
  have p2: "1 \<le> length (filter (entry_matches nm) (l ! b # drop (Suc b) l))"
    using ab(4) by simp
  have "count_named nm l
      = length (filter (entry_matches nm) (take b l))
        + length (filter (entry_matches nm) (l ! b # drop (Suc b) l))"
    unfolding count_named_def by (subst l) (simp only: filter_append length_append)
  with p1 p2 show ?thesis by linarith
qed

text \<open>
  Claim C4. On a registry whose entry names are unique, the upsert keeps the names unique.
  When some entry carries the name, that entry (the only one) is overwritten at its own
  index and the list is otherwise the same: same length, every other index unchanged. When
  no entry carries the name, the new entry is appended at the end.
\<close>

theorem upsert_in_place_or_append:
  assumes "names_unique l"
  shows "names_unique (upsert nm (hub_entry nm host port p) l)
   \<and> (\<not> list_all (\<lambda>e. \<not> entry_matches nm e) l \<longrightarrow>
        (\<exists>i < length l. entry_matches nm (l ! i)
           \<and> upsert nm (hub_entry nm host port p) l = l[i := hub_entry nm host port p]
           \<and> length (upsert nm (hub_entry nm host port p) l) = length l
           \<and> (\<forall>j < length l. j \<noteq> i \<longrightarrow> upsert nm (hub_entry nm host port p) l ! j = l ! j)
           \<and> (\<forall>j < length l. entry_matches nm (l ! j) \<longrightarrow> j = i)))
   \<and> (list_all (\<lambda>e. \<not> entry_matches nm e) l \<longrightarrow>
        upsert nm (hub_entry nm host port p) l = l @ [hub_entry nm host port p])"
proof -
  let ?e = "hub_entry nm host port p"
  have uniq: "names_unique (upsert nm ?e l)"
    using assms by (rule names_unique_upsert) simp
  have app: "upsert nm ?e l = l @ [?e]" if "list_all (\<lambda>e. \<not> entry_matches nm e) l"
    using that by (simp add: upsert_def find_named_None_iff [symmetric])
  have repl: "\<exists>i < length l. entry_matches nm (l ! i) \<and> upsert nm ?e l = l[i := ?e]
      \<and> length (upsert nm ?e l) = length l
      \<and> (\<forall>j < length l. j \<noteq> i \<longrightarrow> upsert nm ?e l ! j = l ! j)
      \<and> (\<forall>j < length l. entry_matches nm (l ! j) \<longrightarrow> j = i)"
    if "\<not> list_all (\<lambda>e. \<not> entry_matches nm e) l"
  proof -
    from that obtain i where i: "find_named nm l = Some i"
      by (auto simp: find_named_None_iff [symmetric])
    from find_named_Some [OF i] have il: "i < length l" and m: "entry_matches nm (l ! i)"
      by simp_all
    have u: "upsert nm ?e l = l[i := ?e]"
      by (simp add: upsert_def i)
    have only: "j = i" if j: "j < length l" and mj: "entry_matches nm (l ! j)" for j
    proof (rule ccontr)
      assume ne: "j \<noteq> i"
      from two_matches_count [OF j il ne mj m] count_named_le_one [OF assms, of nm]
      show False by simp
    qed
    have len: "length (upsert nm ?e l) = length l"
      by (simp add: u)
    have others: "\<forall>j < length l. j \<noteq> i \<longrightarrow> upsert nm ?e l ! j = l ! j"
      by (simp add: u)
    from il m u only len others show ?thesis by blast
  qed
  from uniq app repl show ?thesis by blast
qed

theorem upsert_in_place_or_append_witness:
  "names_unique [hub_entry ''Chisage 1'' ''10.0.0.1'' 5000 ''a.yaml'',
                 hub_entry ''Chisage 2'' ''10.0.0.2'' 5001 ''b.yaml'']
   \<and> names_unique (upsert ''Chisage 2'' (hub_entry ''Chisage 2'' ''10.0.0.7'' 6000 ''b.yaml'')
        [hub_entry ''Chisage 1'' ''10.0.0.1'' 5000 ''a.yaml'',
         hub_entry ''Chisage 2'' ''10.0.0.2'' 5001 ''b.yaml''])
   \<and> upsert ''Chisage 2'' (hub_entry ''Chisage 2'' ''10.0.0.7'' 6000 ''b.yaml'')
        [hub_entry ''Chisage 1'' ''10.0.0.1'' 5000 ''a.yaml'',
         hub_entry ''Chisage 2'' ''10.0.0.2'' 5001 ''b.yaml'']
      = [hub_entry ''Chisage 1'' ''10.0.0.1'' 5000 ''a.yaml'',
         hub_entry ''Chisage 2'' ''10.0.0.7'' 6000 ''b.yaml'']
   \<and> names_unique (upsert ''Chisage 3'' (hub_entry ''Chisage 3'' ''10.0.0.3'' 5002 ''c.yaml'')
        [hub_entry ''Chisage 1'' ''10.0.0.1'' 5000 ''a.yaml'',
         hub_entry ''Chisage 2'' ''10.0.0.2'' 5001 ''b.yaml''])
   \<and> upsert ''Chisage 3'' (hub_entry ''Chisage 3'' ''10.0.0.3'' 5002 ''c.yaml'')
        [hub_entry ''Chisage 1'' ''10.0.0.1'' 5000 ''a.yaml'',
         hub_entry ''Chisage 2'' ''10.0.0.2'' 5001 ''b.yaml'']
      = [hub_entry ''Chisage 1'' ''10.0.0.1'' 5000 ''a.yaml'',
         hub_entry ''Chisage 2'' ''10.0.0.2'' 5001 ''b.yaml'',
         hub_entry ''Chisage 3'' ''10.0.0.3'' 5002 ''c.yaml'']"
proof -
  let ?x = "hub_entry ''Chisage 1'' ''10.0.0.1'' 5000 ''a.yaml''"
  let ?y = "hub_entry ''Chisage 2'' ''10.0.0.2'' 5001 ''b.yaml''"
  let ?l = "[?x, ?y]"
  let ?e2 = "hub_entry ''Chisage 2'' ''10.0.0.7'' 6000 ''b.yaml''"
  let ?e3 = "hub_entry ''Chisage 3'' ''10.0.0.3'' 5002 ''c.yaml''"
  have u: "names_unique ?l"
    by (simp add: names_unique_def hub_names_Cons)
  have m2: "\<not> list_all (\<lambda>e. \<not> entry_matches ''Chisage 2'' e) ?l"
    by simp
  have m3: "list_all (\<lambda>e. \<not> entry_matches ''Chisage 3'' e) ?l"
    by (simp add: hub_entry_def)
  note t2 = upsert_in_place_or_append [OF u, of "''Chisage 2''" "''10.0.0.7''" 6000 "''b.yaml''"]
  note t3 = upsert_in_place_or_append [OF u, of "''Chisage 3''" "''10.0.0.3''" 5002 "''c.yaml''"]
  from t2 have a: "names_unique (upsert ''Chisage 2'' ?e2 ?l)"
    by (rule conjunct1)
  from t2 m2 obtain i where i: "upsert ''Chisage 2'' ?e2 ?l = ?l[i := ?e2]"
    and only: "\<forall>j < length ?l. entry_matches ''Chisage 2'' (?l ! j) \<longrightarrow> j = i"
    by blast
  have "Suc 0 < length ?l \<and> entry_matches ''Chisage 2'' (?l ! Suc 0)"
    by simp
  with only have "i = Suc 0" by blast
  with i have b: "upsert ''Chisage 2'' ?e2 ?l = [?x, ?e2]"
    by simp
  from t3 have c: "names_unique (upsert ''Chisage 3'' ?e3 ?l)"
    by (rule conjunct1)
  from t3 m3 have d: "upsert ''Chisage 3'' ?e3 ?l = ?l @ [?e3]"
    by blast
  from u a b c d show ?thesis by simp
qed

section \<open>Basic facts about the files and the console\<close>

lemma files_write_file [simp]: "files (write_file p t w) = (files w)(p \<mapsto> t)"
  by (simp add: write_file_def)

lemma out_write_file [simp]: "out (write_file p t w) = out w"
  by (simp add: write_file_def)

lemma files_print_all [simp]: "files (print_all msgs w) = files w"
  by (simp add: print_all_def)

lemma out_print_all [simp]: "out (print_all msgs w) = out w @ msgs"
  by (simp add: print_all_def)

lemma sensors_file_path_not_registry [simp]:
  "sensors_file_path nm \<noteq> modbus_hubs_filename" "modbus_hubs_filename \<noteq> sensors_file_path nm"
  by (simp_all add: sensors_file_path_def modbus_hubs_filename_def)

lemma card_filename_not_registry [simp]:
  "card_filename nm \<noteq> modbus_hubs_filename" "modbus_hubs_filename \<noteq> card_filename nm"
  by (simp_all add: card_filename_def modbus_hubs_filename_def)

lemma load_hubs_cong:
  "files w modbus_hubs_filename = files w' modbus_hubs_filename \<Longrightarrow> load_hubs Y w = load_hubs Y w'"
  by (simp add: load_hubs_def)

lemma load_hubs_after_sensor_write [simp]:
  "load_hubs Y (write_file (sensors_file_path nm) t w) = load_hubs Y w"
  by (rule load_hubs_cong) simp

lemma make_config_raises:
  "load_hubs Y w = Inl e \<Longrightarrow>
     make_config Y dev port w =
       (Some e, write_file (sensors_file_path (dev_name dev)) (yaml_dump Y (sensor_config_list dev)) w)"
  by (simp add: make_config_def Let_def)

lemma make_config_returns:
  "load_hubs Y w = Inr (l, msgs) \<Longrightarrow>
     make_config Y dev port w =
       (None, write_file modbus_hubs_filename
                (re_sub_include (yaml_dump Y (YList (written_list dev port l))))
                (print_all msgs
                  (write_file (sensors_file_path (dev_name dev))
                     (yaml_dump Y (sensor_config_list dev)) w)))"
  by (simp add: make_config_def Let_def written_list_def)

lemma fst_make_config:
  "fst (make_config Y dev port w) = (case load_hubs Y w of Inl e \<Rightarrow> Some e | Inr r \<Rightarrow> None)"
  by (cases "load_hubs Y w") (auto simp: make_config_raises make_config_returns)

lemma files_make_config:
  "load_hubs Y w = Inr (l, msgs) \<Longrightarrow>
   files (snd (make_config Y dev port w)) =
     (files w)(sensors_file_path (dev_name dev) \<mapsto> yaml_dump Y (sensor_config_list dev),
               modbus_hubs_filename \<mapsto>
                 re_sub_include (yaml_dump Y (YList (written_list dev port l))))"
  by (simp add: make_config_returns)

lemma out_make_config:
  "load_hubs Y w = Inr (l, msgs) \<Longrightarrow> out (snd (make_config Y dev port w)) = out w @ msgs"
  by (simp add: make_config_returns)

lemma sensor_file_make_config:
  "files (snd (make_config Y dev port w)) (sensors_file_path (dev_name dev))
     = Some (yaml_dump Y (sensor_config_list dev))"
  by (cases "load_hubs Y w") (auto simp: make_config_raises make_config_returns)


lemma out_generate_card:
  "out (generate_card Y dev w) = out w @ [GeneratedCard (card_filename (dev_name dev))]"
  by (simp add: generate_card_def)

lemma dev_name_ChisageInverter [simp]: "dev_name (ChisageInverter nm slave host d) = nm"
  by (simp add: ChisageInverter_def ModbusDevice_init_def)

lemma dev_host_ChisageInverter [simp]: "dev_host (ChisageInverter nm slave host d) = host"
  by (simp add: ChisageInverter_def ModbusDevice_init_def)

section \<open>The shapes of the loaded registry\<close>

lemma load_hubs_absent: "files w modbus_hubs_filename = None \<Longrightarrow> load_hubs Y w = Inr ([], [])"
  by (simp add: load_hubs_def)

lemma load_hubs_list:
  "files w modbus_hubs_filename = Some t \<Longrightarrow> yaml_safe_load Y include_constructor t = Loaded (YList l)
     \<Longrightarrow> load_hubs Y w = Inr (l, [])"
  by (simp add: load_hubs_def)

lemma load_hubs_wrapped:
  "files w modbus_hubs_filename = Some t \<Longrightarrow> yaml_safe_load Y include_constructor t = Loaded (YDict d)
     \<Longrightarrow> map_of d (YStr ''modbus'') = Some (YList l) \<Longrightarrow> load_hubs Y w = Inr (l, [])"
  by (simp add: load_hubs_def)

lemma load_hubs_raised:
  "files w modbus_hubs_filename = Some t \<Longrightarrow> yaml_safe_load Y include_constructor t = Raised e
     \<Longrightarrow> load_hubs Y w = Inl e"
  by (simp add: load_hubs_def)

lemma resolve_loaded_other:
  assumes "v \<noteq> YNull" and "\<And>l. v \<noteq> YList l"
    and "\<And>d l. v = YDict d \<Longrightarrow> map_of d (YStr ''modbus'') \<noteq> Some (YList l)"
  shows "resolve_loaded v = ([], [WarnUnexpectedFormat])"
proof (cases v)
  case (YDict d)
  show ?thesis
  proof (cases "map_of d (YStr ''modbus'')")
    case None
    with YDict show ?thesis by simp
  next
    case (Some x)
    have "x \<noteq> YList l" for l
      using assms(3) [OF YDict, of l] Some by simp
    with YDict Some show ?thesis by (cases x) auto
  qed
qed (use assms in simp_all)


section \<open>Loading the registry\<close>

text \<open>
  Claim C5. What the load step makes of the registry file: no file gives the empty list and
  no message; a text that loads as a list gives that list; a text that loads as a mapping
  with a list under \<^verbatim>\<open>modbus\<close> gives that list; a text that loads as \<^verbatim>\<open>null\<close> gives the
  empty list silently and a text that does not parse gives it with the parse warning; every
  other loaded value gives the empty list with the format warning, and the write that
  follows puts exactly the entry of the device at hand into the registry file.
\<close>

theorem registry_load_shapes:
  "(files w modbus_hubs_filename = None \<longrightarrow>
      load_hubs Y w = Inr ([], [])
      \<and> out (snd (make_config Y dev port w)) = out w)
   \<and> (files w modbus_hubs_filename = Some t \<and> yaml_safe_load Y include_constructor t = Loaded (YList l) \<longrightarrow>
      load_hubs Y w = Inr (l, []))
   \<and> (files w modbus_hubs_filename = Some t \<and> yaml_safe_load Y include_constructor t = Loaded (YDict d)
        \<and> map_of d (YStr ''modbus'') = Some (YList l) \<longrightarrow>
      load_hubs Y w = Inr (l, []))
   \<and> (files w modbus_hubs_filename = Some t \<and> yaml_safe_load Y include_constructor t = Loaded YNull \<longrightarrow>
      load_hubs Y w = Inr ([], []))
   \<and> (files w modbus_hubs_filename = Some t \<and> yaml_safe_load Y include_constructor t = YAMLError e \<longrightarrow>
      load_hubs Y w = Inr ([], [WarnParseError e]))
   \<and> (files w modbus_hubs_filename = Some t \<and> yaml_safe_load Y include_constructor t = Loaded v
        \<and> v \<noteq> YNull \<and> (\<forall>l'. v \<noteq> YList l')
        \<and> (\<forall>d' l'. v = YDict d' \<longrightarrow> map_of d' (YStr ''modbus'') \<noteq> Some (YList l')) \<longrightarrow>
      load_hubs Y w = Inr ([], [WarnUnexpectedFormat])
      \<and> out (snd (make_config Y dev port w)) = out w @ [WarnUnexpectedFormat]
      \<and> files (snd (make_config Y dev port w)) modbus_hubs_filename =
          Some (re_sub_include (yaml_dump Y (YList
            [hub_entry (dev_name dev) (dev_host dev) port (sensors_file_path (dev_name dev))]))))"
proof -
  have absent: "load_hubs Y w = Inr ([], []) \<and> out (snd (make_config Y dev port w)) = out w"
    if "files w modbus_hubs_filename = None"
    using that by (simp add: load_hubs_absent out_make_config)
  have bare: "load_hubs Y w = Inr (l, [])"
    if "files w modbus_hubs_filename = Some t" "yaml_safe_load Y include_constructor t = Loaded (YList l)"
    using that by (rule load_hubs_list)
  have wrapped: "load_hubs Y w = Inr (l, [])"
    if "files w modbus_hubs_filename = Some t" "yaml_safe_load Y include_constructor t = Loaded (YDict d)"
      "map_of d (YStr ''modbus'') = Some (YList l)"
    using that by (rule load_hubs_wrapped)
  have other: "load_hubs Y w = Inr ([], [WarnUnexpectedFormat])
      \<and> out (snd (make_config Y dev port w)) = out w @ [WarnUnexpectedFormat]
      \<and> files (snd (make_config Y dev port w)) modbus_hubs_filename =
          Some (re_sub_include (yaml_dump Y (YList
            [hub_entry (dev_name dev) (dev_host dev) port (sensors_file_path (dev_name dev))])))"
    if f: "files w modbus_hubs_filename = Some t" and v: "yaml_safe_load Y include_constructor t = Loaded v"
      and n: "v \<noteq> YNull" and nl: "\<forall>l'. v \<noteq> YList l'"
      and nd: "\<forall>d' l'. v = YDict d' \<longrightarrow> map_of d' (YStr ''modbus'') \<noteq> Some (YList l')"
  proof -
    have "resolve_loaded v = ([], [WarnUnexpectedFormat])"
      using n nl nd by (intro resolve_loaded_other) auto
    with f v have l: "load_hubs Y w = Inr ([], [WarnUnexpectedFormat])"
      by (simp add: load_hubs_def)
    then show ?thesis
      by (simp add: out_make_config files_make_config written_list_def upsert_def)
  qed
  have null: "load_hubs Y w = Inr ([], [])"
    if "files w modbus_hubs_filename = Some t" "yaml_safe_load Y include_constructor t = Loaded YNull"
    using that by (simp add: load_hubs_def)
  have unparsed: "load_hubs Y w = Inr ([], [WarnParseError e])"
    if "files w modbus_hubs_filename = Some t" "yaml_safe_load Y include_constructor t = YAMLError e"
    using that by (simp add: load_hubs_def)
  from absent bare wrapped null unparsed other show ?thesis by blast
qed

theorem registry_load_shapes_witness:
  "files \<lparr>files = [modbus_hubs_filename \<mapsto> ''homeassistant: {}''], out = []\<rparr> modbus_hubs_filename
     = Some ''homeassistant: {}''
   \<and> yaml_safe_load (fixed_lib ''- name: Chisage 1'' (Loaded (YDict [(YStr ''homeassistant'', YDict [])])))
        include_constructor ''homeassistant: {}'' = Loaded (YDict [(YStr ''homeassistant'', YDict [])])
   \<and> load_hubs (fixed_lib ''- name: Chisage 1'' (Loaded (YDict [(YStr ''homeassistant'', YDict [])])))
        \<lparr>files = [modbus_hubs_filename \<mapsto> ''homeassistant: {}''], out = []\<rparr>
      = Inr ([], [WarnUnexpectedFormat])
   \<and> out (snd (make_config (fixed_lib ''- name: Chisage 1'' (Loaded (YDict [(YStr ''homeassistant'', YDict [])])))
        (ChisageInverter ''Chisage 1'' 1 ''10.0.0.1'' 20) 5000
        \<lparr>files = [modbus_hubs_filename \<mapsto> ''homeassistant: {}''], out = []\<rparr>))
      = [WarnUnexpectedFormat]
   \<and> files (snd (make_config (fixed_lib ''- name: Chisage 1'' (Loaded (YDict [(YStr ''homeassistant'', YDict [])])))
        (ChisageInverter ''Chisage 1'' 1 ''10.0.0.1'' 20) 5000
        \<lparr>files = [modbus_hubs_filename \<mapsto> ''homeassistant: {}''], out = []\<rparr>)) modbus_hubs_filename
      = Some ''- name: Chisage 1''"
proof -
  let ?Y = "fixed_lib ''- name: Chisage 1'' (Loaded (YDict [(YStr ''homeassistant'', YDict [])]))"
  let ?w = "\<lparr>files = [modbus_hubs_filename \<mapsto> ''homeassistant: {}''], out = []\<rparr>"
  let ?v = "YDict [(YStr ''homeassistant'', YDict [])]"
  have f: "files ?w modbus_hubs_filename = Some ''homeassistant: {}''"
    by simp
  have v: "yaml_safe_load ?Y include_constructor ''homeassistant: {}'' = Loaded ?v"
    by (simp add: fixed_lib_def)
  have s: "?v \<noteq> YNull \<and> (\<forall>l'. ?v \<noteq> YList l')
      \<and> (\<forall>d' l'. ?v = YDict d' \<longrightarrow> map_of d' (YStr ''modbus'') \<noteq> Some (YList l'))"
    by simp
  have d: "yaml_dump ?Y x = ''- name: Chisage 1''" for x
    by (simp add: fixed_lib_def)
  have r: "re_sub_include ''- name: Chisage 1'' = ''- name: Chisage 1''"
    by (simp add: match_include_def)
  from registry_load_shapes
    [of ?w ?Y "ChisageInverter ''Chisage 1'' 1 ''10.0.0.1'' 20" 5000 "''homeassistant: {}''" "[]" "[]" "[]" ?v]
    f v s
  have "load_hubs ?Y ?w = Inr ([], [WarnUnexpectedFormat])
      \<and> out (snd (make_config ?Y (ChisageInverter ''Chisage 1'' 1 ''10.0.0.1'' 20) 5000 ?w))
          = out ?w @ [WarnUnexpectedFormat]
      \<and> files (snd (make_config ?Y (ChisageInverter ''Chisage 1'' 1 ''10.0.0.1'' 20) 5000 ?w))
          modbus_hubs_filename =
          Some (re_sub_include (yaml_dump ?Y (YList
            [hub_entry (dev_name (ChisageInverter ''Chisage 1'' 1 ''10.0.0.1'' 20))
               (dev_host (ChisageInverter ''Chisage 1'' 1 ''10.0.0.1'' 20)) 5000
               (sensors_file_path (dev_name (ChisageInverter ''Chisage 1'' 1 ''10.0.0.1'' 20)))])))"
    by blast
  with f v show ?thesis
    by (simp only: d r out_print_all world.simps append_Nil simp_thms)
qed

section \<open>The setup blocks\<close>

lemma split_dot_nonempty [simp]: "split_dot s \<noteq> []"
  by (induction s) (auto split: list.splits)

lemma ip_format_ok_nonempty: "ip_format_ok (split_dot s) \<Longrightarrow> s \<noteq> []"
  by (auto simp: ip_format_ok_def)

lemma ip_format_ok_last_octet:
  assumes "ip_format_ok octs"
  shows "0 \<le> int_of_digits (octs ! 3) \<and> int_of_digits (octs ! 3) \<le> 255"
proof -
  from assms have "length octs = 4" and "list_all octet_ok octs"
    by (simp_all add: ip_format_ok_def)
  then have "octet_ok (octs ! 3)"
    by (simp add: list_all_length)
  then show ?thesis by (simp add: octet_ok_def)
qed

lemma ip_setup_start:
  assumes "args_ip_start a = Some s" and "ip_format_ok (split_dot s)"
  shows "ip_address_setup a =
     Inr ([IPModeIncremental s],
       \<lparr>ip_mode_is_start = True, base_ip_prefix = Some (join_dot (take 3 (split_dot s))),
        last_octet_start = Some (int_of_digits (split_dot s ! 3)), fixed_ip_str = None\<rparr>)"
  using assms ip_format_ok_nonempty [OF assms(2)]
  by (simp add: ip_address_setup_def truthy_str_def Let_def)

lemma ip_setup_fixed:
  assumes "args_ip_start a = None" and "args_ip_fixed a = Some s" and "ip_format_ok (split_dot s)"
  shows "ip_address_setup a =
     Inr ([IPModeFixed s],
       \<lparr>ip_mode_is_start = False, base_ip_prefix = None, last_octet_start = None,
        fixed_ip_str = Some s\<rparr>)"
  using assms ip_format_ok_nonempty [OF assms(3)]
  by (simp add: ip_address_setup_def truthy_str_def Let_def)

lemma ip_setup_empty:
  assumes "parsed_by_argparse a" and "ip_argument a = []"
  shows "ip_address_setup a =
     Inr ([], \<lparr>ip_mode_is_start = False, base_ip_prefix = None, last_octet_start = None,
               fixed_ip_str = None\<rparr>)"
  using assms
  by (auto simp: ip_address_setup_def truthy_str_def parsed_by_argparse_def ip_argument_def
      split: option.splits)

lemma port_setup_zero:
  assumes "parsed_by_argparse a" and "port_argument a = 0"
  shows "port_number_setup a = ([], \<lparr>port_mode_is_start = False, port_to_process = None\<rparr>)"
  using assms
  by (auto simp: port_number_setup_def truthy_int_def parsed_by_argparse_def port_argument_def
      split: option.splits)

lemma port_setup_nonzero:
  assumes "parsed_by_argparse a" and "port_argument a \<noteq> 0"
  shows "port_number_setup a =
     ([if args_port_start a \<noteq> None then PortModeIncremental (port_argument a)
       else PortModeFixed (port_argument a)],
      \<lparr>port_mode_is_start = (args_port_start a \<noteq> None), port_to_process = Some (port_argument a)\<rparr>)"
  using assms
  by (auto simp: port_number_setup_def truthy_int_def parsed_by_argparse_def port_argument_def
      split: option.splits)

section \<open>The generation loop\<close>

lemma derived_Nil [simp]: "derived [] = []"
  by (simp add: derived_def List.map_filter_simps)

lemma derived_append [simp]: "derived (xs @ ys) = derived xs @ derived ys"
  by (simp add: derived_def List.map_filter_def)

lemma derived_Cons [simp]:
  "derived (m # ms) = (case creating_tuple m of None \<Rightarrow> derived ms | Some t \<Rightarrow> t # derived ms)"
  by (cases "creating_tuple m") (simp_all add: derived_def List.map_filter_simps)

lemma derived_Creating:
  "derived [Creating k nm host port slave] = [(nm, host, port, slave)]"
  by (simp add: derived_def List.map_filter_simps)





lemma loop_body_stop:
  assumes "current_host_ip a iv i = Inl (stop, msgs)"
  shows "loop_body Y a iv pv i w = (Some stop, print_all msgs w)"
  using assms by (simp add: loop_body_def)

lemma loop_body_stop_port:
  assumes "current_host_ip a iv i = Inr h" and "current_port_val pv i = Inl (stop, msgs)"
  shows "loop_body Y a iv pv i w = (Some stop, print_all msgs w)"
  using assms by (simp add: loop_body_def)







lemma ip_format_ok_example_1: "ip_format_ok (split_dot ''10.0.0.5'')"
  by (simp add: ip_format_ok_def octet_ok_def isdigit_def digit_value_def int_of_digits_def)

section \<open>The run, by the way it ends\<close>

lemma run_ip_error:
  "ip_address_setup a = Inl err \<Longrightarrow> run Y a w = (Exited 1, print_all [err] w)"
  by (simp add: run_def)

lemma run_count_error:
  "ip_address_setup a = Inr (im, iv) \<Longrightarrow> args_count a \<le> 0 \<Longrightarrow>
     run Y a w = (Exited 1,
       print_all [ErrorCount] (print_all (fst (port_number_setup a)) (print_all im w)))"
  by (simp add: run_def Let_def split: prod.splits)

lemma run_loop:
  "ip_address_setup a = Inr (im, iv) \<Longrightarrow> 0 < args_count a \<Longrightarrow>
     run Y a w =
       (case generation_loop Y a iv (snd (port_number_setup a)) [0 .. args_count a - 1]
               (print_all [Generating (args_count a) (args_slave_id a)]
                 (print_all (fst (port_number_setup a)) (print_all im w))) of
          (Finished, w2) \<Rightarrow> (Finished, print_all [SuccessfullyGenerated] w2)
        | (stop, w2) \<Rightarrow> (stop, w2))"
  by (simp add: run_def Let_def split: prod.splits)

lemma generation_loop_first_stop:
  assumes "0 < n" and "loop_body Y a iv pv 0 w = (Some stop, w')"
  shows "generation_loop Y a iv pv [0 .. n - 1] w = (stop, w')"
proof -
  from assms(1) have "[0 .. n - 1] = 0 # [1 .. n - 1]"
    by (simp add: upto_rec1)
  with assms(2) show ?thesis by simp
qed

lemma ip_setup_wellformed:
  assumes "parsed_by_argparse a" and "ip_format_ok (split_dot (ip_argument a))"
  shows "ip_address_setup a =
     (if args_ip_start a \<noteq> None
      then Inr ([IPModeIncremental (ip_argument a)],
        \<lparr>ip_mode_is_start = True,
         base_ip_prefix = Some (join_dot (take 3 (split_dot (ip_argument a)))),
         last_octet_start = Some (int_of_digits (split_dot (ip_argument a) ! 3)),
         fixed_ip_str = None\<rparr>)
      else Inr ([IPModeFixed (ip_argument a)],
        \<lparr>ip_mode_is_start = False, base_ip_prefix = None, last_octet_start = None,
         fixed_ip_str = Some (ip_argument a)\<rparr>))"
proof (cases "args_ip_start a")
  case None
  with assms(1) obtain s where s: "args_ip_fixed a = Some s"
    by (auto simp: parsed_by_argparse_def)
  with None have "ip_argument a = s" by (simp add: ip_argument_def)
  with None s assms(2) show ?thesis by (simp add: ip_setup_fixed)
next
  case (Some s)
  then have "ip_argument a = s" by (simp add: ip_argument_def)
  with Some assms(2) show ?thesis by (simp add: ip_setup_start)
qed

text \<open>
  Claim C6 at the empty address. The empty string is not an address of four octets, and
  \<^verbatim>\<open>argparse\<close> delivers it as it is. The truth tests \<^verbatim>\<open>if args.ip_start:\<close> and
  \<^verbatim>\<open>elif args.ip_fixed:\<close> are both false for it, so neither branch of the IP block runs: the
  address is not checked, no \<^verbatim>\<open>Error:\<close> line is printed and \<^verbatim>\<open>exit(1)\<close> is not called. With
  a count of at least 1 the run goes on through the port block and the header and ends in
  the \<^verbatim>\<open>NameError\<close> on \<^verbatim>\<open>fixed_ip_str\<close> at the first iteration, before any file is written.
\<close>

theorem empty_ip_skips_validation:
  assumes "parsed_by_argparse a" and "ip_argument a = []" and "1 \<le> args_count a"
  shows "\<not> ip_format_ok (split_dot (ip_argument a))
    \<and> ip_address_setup a =
        Inr ([], \<lparr>ip_mode_is_start = False, base_ip_prefix = None, last_octet_start = None,
                  fixed_ip_str = None\<rparr>)
    \<and> fst (run Y a w) = Uncaught (NameError ''fixed_ip_str'')
    \<and> files (snd (run Y a w)) = files w
    \<and> out (snd (run Y a w)) =
        out w
        @ (if port_argument a = 0 then []
           else [if args_port_start a \<noteq> None then PortModeIncremental (port_argument a)
                 else PortModeFixed (port_argument a)])
        @ [Generating (args_count a) (args_slave_id a)]"
proof -
  note s = ip_setup_empty [OF assms(1,2)]
  from assms(3) have pos: "0 < args_count a" by simp
  have bad: "\<not> ip_format_ok (split_dot (ip_argument a))"
    by (simp add: assms(2) ip_format_ok_def)
  define pm where "pm = (if port_argument a = 0 then []
           else [if args_port_start a \<noteq> None then PortModeIncremental (port_argument a)
                 else PortModeFixed (port_argument a)])"
  have p: "fst (port_number_setup a) = pm"
  proof (cases "port_argument a = 0")
    case True
    with port_setup_zero [OF assms(1)] show ?thesis by (simp add: pm_def)
  next
    case False
    with port_setup_nonzero [OF assms(1)] show ?thesis by (simp add: pm_def)
  qed
  let ?w0 = "print_all [Generating (args_count a) (args_slave_id a)]
               (print_all (fst (port_number_setup a)) (print_all [] w))"
  have "loop_body Y a \<lparr>ip_mode_is_start = False, base_ip_prefix = None, last_octet_start = None,
             fixed_ip_str = None\<rparr> (snd (port_number_setup a)) 0 ?w0
        = (Some (Uncaught (NameError ''fixed_ip_str'')), print_all [] ?w0)"
    by (rule loop_body_stop) (simp add: current_host_ip_def)
  from generation_loop_first_stop [OF pos this]
  have r: "run Y a w = (Uncaught (NameError ''fixed_ip_str''), print_all [] ?w0)"
    by (simp add: run_loop [OF s pos])
  have "out (snd (run Y a w)) = out w @ pm @ [Generating (args_count a) (args_slave_id a)]"
    by (simp add: r p)
  with bad s r show ?thesis
    by (simp add: pm_def)
qed

theorem empty_ip_skips_validation_witness:
  "parsed_by_argparse
     \<lparr>args_count = 1, args_slave_id = 1, args_ip_start = Some [], args_ip_fixed = None,
      args_port_start = None, args_port_fixed = Some 5000, args_generate_cards = False\<rparr>
   \<and> \<not> ip_format_ok (split_dot [])
   \<and> run (fixed_lib [] (Loaded YNull))
       \<lparr>args_count = 1, args_slave_id = 1, args_ip_start = Some [], args_ip_fixed = None,
        args_port_start = None, args_port_fixed = Some 5000, args_generate_cards = False\<rparr>
       \<lparr>files = Map.empty, out = []\<rparr>
     = (Uncaught (NameError ''fixed_ip_str''),
        \<lparr>files = Map.empty, out = [PortModeFixed 5000, Generating 1 1]\<rparr>)"
proof -
  let ?Y = "fixed_lib [] (Loaded YNull)"
  let ?w = "\<lparr>files = Map.empty, out = []\<rparr>"
  let ?a = "\<lparr>args_count = 1, args_slave_id = 1, args_ip_start = Some [], args_ip_fixed = None,
      args_port_start = None, args_port_fixed = Some 5000, args_generate_cards = False\<rparr>"
  have pa: "parsed_by_argparse ?a"
    by (simp add: parsed_by_argparse_def)
  have ia: "ip_argument ?a = []" and po: "port_argument ?a = 5000"
    by (simp_all add: ip_argument_def port_argument_def)
  from empty_ip_skips_validation [of ?a ?Y ?w] pa ia
  have r: "\<not> ip_format_ok (split_dot [])"
    "fst (run ?Y ?a ?w) = Uncaught (NameError ''fixed_ip_str'')"
    "files (snd (run ?Y ?a ?w)) = Map.empty"
    "out (snd (run ?Y ?a ?w)) = [PortModeFixed 5000, Generating 1 1]"
    by (simp_all add: po)
  from r(2-4) have "run ?Y ?a ?w = (Uncaught (NameError ''fixed_ip_str''),
        \<lparr>files = Map.empty, out = [PortModeFixed 5000, Generating 1 1]\<rparr>)"
    by (cases "run ?Y ?a ?w") (simp add: world.equality)
  with pa r(1) show ?thesis by simp
qed

text \<open>
  Claim C9. A port argument of 0 passes the port block without a message and without
  selecting a mode, and \<^verbatim>\<open>port_to_process\<close> stays unassigned. With an IP argument that
  passes its check and a count of at least 1, the run then ends in the \<^verbatim>\<open>NameError\<close> on
  \<^verbatim>\<open>port_to_process\<close> at its first use in the first iteration: the console holds the IP
  mode line and the header and no \<^verbatim>\<open>Error:\<close> line, and no file is written.
\<close>

theorem port_zero_raises_NameError:
  assumes "parsed_by_argparse a" and "port_argument a = 0"
    and "ip_format_ok (split_dot (ip_argument a))" and "1 \<le> args_count a"
  shows "port_number_setup a = ([], \<lparr>port_mode_is_start = False, port_to_process = None\<rparr>)
    \<and> fst (run Y a w) = Uncaught (NameError ''port_to_process'')
    \<and> files (snd (run Y a w)) = files w
    \<and> out (snd (run Y a w)) =
        out w @ [if args_ip_start a \<noteq> None then IPModeIncremental (ip_argument a)
                 else IPModeFixed (ip_argument a),
                 Generating (args_count a) (args_slave_id a)]"
proof -
  note p = port_setup_zero [OF assms(1,2)]
  from assms(4) have pos: "0 < args_count a" by simp
  define im where "im = [if args_ip_start a \<noteq> None then IPModeIncremental (ip_argument a)
                 else IPModeFixed (ip_argument a)]"
  from ip_setup_wellformed [OF assms(1,3)] obtain iv
    where s: "ip_address_setup a = Inr (im, iv)"
      and iv: "iv = (if args_ip_start a \<noteq> None
        then \<lparr>ip_mode_is_start = True,
         base_ip_prefix = Some (join_dot (take 3 (split_dot (ip_argument a)))),
         last_octet_start = Some (int_of_digits (split_dot (ip_argument a) ! 3)),
         fixed_ip_str = None\<rparr>
        else \<lparr>ip_mode_is_start = False, base_ip_prefix = None, last_octet_start = None,
         fixed_ip_str = Some (ip_argument a)\<rparr>)"
    by (simp add: im_def split: if_splits)
  from ip_format_ok_last_octet [OF assms(3)]
  have "\<exists>h. current_host_ip a iv 0 = Inr h"
    by (simp add: iv current_host_ip_def Let_def)
  then obtain h where h: "current_host_ip a iv 0 = Inr h" ..
  let ?pv = "\<lparr>port_mode_is_start = False, port_to_process = None\<rparr>"
  let ?w0 = "print_all [Generating (args_count a) (args_slave_id a)] (print_all [] (print_all im w))"
  have "loop_body Y a iv ?pv 0 ?w0
      = (Some (Uncaught (NameError ''port_to_process'')), print_all [] ?w0)"
    by (rule loop_body_stop_port [OF h]) (simp add: current_port_val_def)
  from generation_loop_first_stop [OF pos this]
  have "run Y a w = (Uncaught (NameError ''port_to_process''), print_all [] ?w0)"
    by (simp add: run_loop [OF s pos] p)
  with p show ?thesis by (simp add: im_def)
qed

theorem port_zero_raises_NameError_witness:
  "parsed_by_argparse
     \<lparr>args_count = 2, args_slave_id = 1, args_ip_start = None, args_ip_fixed = Some ''10.0.0.5'',
      args_port_start = Some 0, args_port_fixed = None, args_generate_cards = False\<rparr>
   \<and> ip_format_ok (split_dot ''10.0.0.5'')
   \<and> port_number_setup
       \<lparr>args_count = 2, args_slave_id = 1, args_ip_start = None, args_ip_fixed = Some ''10.0.0.5'',
        args_port_start = Some 0, args_port_fixed = None, args_generate_cards = False\<rparr>
     = ([], \<lparr>port_mode_is_start = False, port_to_process = None\<rparr>)
   \<and> run (fixed_lib [] (Loaded YNull))
       \<lparr>args_count = 2, args_slave_id = 1, args_ip_start = None, args_ip_fixed = Some ''10.0.0.5'',
        args_port_start = Some 0, args_port_fixed = None, args_generate_cards = False\<rparr>
       \<lparr>files = Map.empty, out = []\<rparr>
     = (Uncaught (NameError ''port_to_process''),
        \<lparr>files = Map.empty, out = [IPModeFixed ''10.0.0.5'', Generating 2 1]\<rparr>)"
proof -
  let ?Y = "fixed_lib [] (Loaded YNull)"
  let ?w = "\<lparr>files = Map.empty, out = []\<rparr>"
  let ?a = "\<lparr>args_count = 2, args_slave_id = 1, args_ip_start = None,
      args_ip_fixed = Some ''10.0.0.5'', args_port_start = Some 0, args_port_fixed = None,
      args_generate_cards = False\<rparr>"
  have pa: "parsed_by_argparse ?a"
    by (simp add: parsed_by_argparse_def)
  have ia: "ip_argument ?a = ''10.0.0.5''" and po: "port_argument ?a = 0"
    by (simp_all add: ip_argument_def port_argument_def)
  note ok = ip_format_ok_example_1
  from port_zero_raises_NameError [of ?a ?Y ?w] pa po ia ok
  have r: "port_number_setup ?a = ([], \<lparr>port_mode_is_start = False, port_to_process = None\<rparr>)"
    "fst (run ?Y ?a ?w) = Uncaught (NameError ''port_to_process'')"
    "files (snd (run ?Y ?a ?w)) = Map.empty"
    "out (snd (run ?Y ?a ?w)) = [IPModeFixed ''10.0.0.5'', Generating 2 1]"
    by simp_all
  from r(2-4) have "run ?Y ?a ?w = (Uncaught (NameError ''port_to_process''),
        \<lparr>files = Map.empty, out = [IPModeFixed ''10.0.0.5'', Generating 2 1]\<rparr>)"
    by (cases "run ?Y ?a ?w") (simp add: world.equality)
  with pa ok r(1) show ?thesis by simp
qed

section \<open>Runs that reach the loop\<close>





lemma load_hubs_print_all [simp]: "load_hubs Y (print_all msgs w) = load_hubs Y w"
  by (rule load_hubs_cong) simp




lemma current_host_ip_args_count [simp]:
  "current_host_ip (a\<lparr>args_count := k\<rparr>) iv i = current_host_ip a iv i"
  by (simp add: current_host_ip_def Let_def split: option.splits)

lemma loop_body_args_count [simp]:
  "loop_body Y (a\<lparr>args_count := k\<rparr>) iv pv i w = loop_body Y a iv pv i w"
  by (auto simp: loop_body_def Let_def split: sum.splits prod.splits option.splits)


lemma ip_address_setup_args_count [simp]:
  "ip_address_setup (a\<lparr>args_count := k\<rparr>) = ip_address_setup a"
  by (simp add: ip_address_setup_def Let_def split: option.splits)

lemma port_number_setup_args_count [simp]:
  "port_number_setup (a\<lparr>args_count := k\<rparr>) = port_number_setup a"
  by (simp add: port_number_setup_def split: option.splits)








section \<open>The derived devices\<close>




section \<open>Runs that overflow the last octet\<close>

lemma parsed_by_argparse_args_count [simp]:
  "parsed_by_argparse (a\<lparr>args_count := k\<rparr>) = parsed_by_argparse a"
  by (simp add: parsed_by_argparse_def)

lemma ip_argument_args_count [simp]: "ip_argument (a\<lparr>args_count := k\<rparr>) = ip_argument a"
  by (simp add: ip_argument_def split: option.splits)

lemma port_argument_args_count [simp]: "port_argument (a\<lparr>args_count := k\<rparr>) = port_argument a"
  by (simp add: port_argument_def split: option.splits)

section \<open>The range error of the incremental IP mode\<close>



lemma is_uncaught_simps [simp]:
  "\<not> is_uncaught Finished" "\<not> is_uncaught (Exited n)"
  by simp_all




end
